theory Spec2Isabelle
  imports Complex_Main "HOL-Library.Word"
begin

section \<open>JavaScript strings\<close>

text \<open>
  A JavaScript string is a sequence of 16-bit UTF-16 code units; \<open>trim\<close>, the regular
  expression \<open>/([A-Z])/g\<close> and string comparison all work on code units. Source literals
  are ASCII and are written through \<open>js\<close>.
\<close>

type_synonym jsstring = "16 word list"

definition js :: "string \<Rightarrow> jsstring" where
  "js s = map of_char s"

text \<open>
  \<open>String.prototype.trim\<close> strips WhiteSpace and LineTerminator code points from both
  ends (ECMAScript: TAB, VT, FF, ZWNBSP, the Unicode space separators, LF, CR, LS, PS).
  All of them lie in the Basic Multilingual Plane, so each is one code unit.
\<close>

definition isWhiteSpace :: "16 word \<Rightarrow> bool" where
  "isWhiteSpace c \<longleftrightarrow>
     c = 0x0009 \<or> c = 0x000A \<or> c = 0x000B \<or> c = 0x000C \<or> c = 0x000D \<or>
     c = 0x0020 \<or> c = 0x00A0 \<or> c = 0x1680 \<or> (0x2000 \<le> c \<and> c \<le> 0x200A) \<or>
     c = 0x2028 \<or> c = 0x2029 \<or> c = 0x202F \<or> c = 0x205F \<or> c = 0x3000 \<or>
     c = 0xFEFF"

definition trim :: "jsstring \<Rightarrow> jsstring" where
  "trim s = rev (dropWhile isWhiteSpace (rev (dropWhile isWhiteSpace s)))"

text \<open>\<open>field.replace(/([A-Z])/g, " $1")\<close>: a space in front of every ASCII capital.\<close>

definition isAsciiUpper :: "16 word \<Rightarrow> bool" where
  "isAsciiUpper c \<longleftrightarrow> 0x41 \<le> c \<and> c \<le> 0x5A"

fun replaceCapitals :: "jsstring \<Rightarrow> jsstring" where
  "replaceCapitals [] = []"
| "replaceCapitals (c # cs) =
     (if isAsciiUpper c then 0x20 # c # replaceCapitals cs else c # replaceCapitals cs)"

text \<open>
  \<open>toLowerCase\<close> on the Basic Latin block. The only strings it is applied to are the
  identifiers of \<open>requiredFields\<close> (after \<open>replaceCapitals\<close>), which are ASCII (lemma
  \<open>requiredFields_ascii\<close> below); the Unicode case mapping of other code points is not
  modelled.
\<close>

definition toLowerCase :: "jsstring \<Rightarrow> jsstring" where
  "toLowerCase s = map (\<lambda>c. if isAsciiUpper c then c + 0x20 else c) s"

section \<open>Form state\<close>

text \<open>
  \<open>formData\<close> is a plain object with string values; \<open>handleInputChange\<close> writes it
  through a computed key, so it is modelled as a map from property names to values.
  A missing property reads as \<open>undefined\<close>, here \<open>None\<close>.
\<close>

type_synonym formData = "jsstring \<rightharpoonup> jsstring"

definition initialFormData :: formData where
  "initialFormData = Map.empty
     (js ''email'' \<mapsto> [],
      js ''firstName'' \<mapsto> [],
      js ''lastName'' \<mapsto> [],
      js ''phone'' \<mapsto> [],
      js ''address1'' \<mapsto> [],
      js ''address2'' \<mapsto> [],
      js ''city'' \<mapsto> [],
      js ''state'' \<mapsto> [],
      js ''postalCode'' \<mapsto> [],
      js ''country'' \<mapsto> [])"

record checkout =
  formData :: formData
  isProcessing :: bool
  animateTruck :: bool

definition initialCheckout :: checkout where
  "initialCheckout = \<lparr>formData = initialFormData, isProcessing = False, animateTruck = False\<rparr>"

text \<open>\<open>setFormData((prev) => ({...prev, [name]: value}))\<close>\<close>

definition handleInputChange :: "jsstring \<Rightarrow> jsstring \<Rightarrow> checkout \<Rightarrow> checkout" where
  "handleInputChange name val st = st\<lparr>formData := (formData st)(name \<mapsto> val)\<rparr>"

section \<open>Validation\<close>

record toast =
  title :: jsstring
  description :: jsstring
  variant :: jsstring

definition requiredFields :: "jsstring list" where
  "requiredFields =
     [js ''email'', js ''firstName'', js ''lastName'', js ''phone'', js ''address1'',
      js ''city'', js ''state'', js ''postalCode'', js ''country'']"

text \<open>
  \<open>!formData[field]?.trim()\<close>: true for a missing property (\<open>undefined\<close> is falsy) and
  for a value whose trimmed form is the empty string.
\<close>

definition notTrimmed :: "jsstring option \<Rightarrow> bool" where
  "notTrimmed v = (case v of None \<Rightarrow> True | Some s \<Rightarrow> trim s = [])"

definition missingFieldToast :: "jsstring \<Rightarrow> toast" where
  "missingFieldToast field =
     \<lparr>title = js ''Error'',
      description =
        js ''Please fill in the '' @ toLowerCase (replaceCapitals field) @ js '' field.'',
      variant = js ''destructive''\<rparr>"

text \<open>The \<open>for ... of\<close> loop of \<open>validateForm\<close>: result and the toasts shown.\<close>

fun validateFields :: "formData \<Rightarrow> jsstring list \<Rightarrow> bool \<times> toast list" where
  "validateFields fd [] = (True, [])"
| "validateFields fd (field # rest) =
     (if notTrimmed (fd field) then (False, [missingFieldToast field])
      else validateFields fd rest)"

definition validateForm :: "formData \<Rightarrow> bool \<times> toast list" where
  "validateForm fd = validateFields fd requiredFields"

datatype jserror = TypeError | AxiosError | SyntaxError

text \<open>
  \<open>requiredFields.every((field) => formData[field].trim() !== "")\<close>: \<open>every\<close> stops at
  the first field that fails; \<open>.trim()\<close> on a missing property throws.
\<close>

fun everyFilled :: "formData \<Rightarrow> jsstring list \<Rightarrow> jserror + bool" where
  "everyFilled fd [] = Inr True"
| "everyFilled fd (field # rest) =
     (case fd field of
        None \<Rightarrow> Inl TypeError
      | Some s \<Rightarrow> if trim s \<noteq> [] then everyFilled fd rest else Inr False)"

definition isFormValid :: "formData \<Rightarrow> jserror + bool" where
  "isFormValid fd = everyFilled fd requiredFields"

text \<open>\<open>disabled={!isFormValid || isProcessing}\<close> on the submit control.\<close>

definition submitDisabled :: "checkout \<Rightarrow> jserror + bool" where
  "submitDisabled st =
     (case isFormValid (formData st) of
        Inl e \<Rightarrow> Inl e
      | Inr valid \<Rightarrow> Inr (\<not> valid \<or> isProcessing st))"

section \<open>Collaborators\<close>

text \<open>
  Amounts are JavaScript numbers. The component only passes them on, adds nothing to them
  and compares two of them with \<open>0\<close>, so their type is a parameter \<open>'n\<close>; the type \<open>'c\<close> of
  a cart item is a parameter too (the cart context is not part of this unit).
\<close>

record 'n pricing =
  shipping :: 'n
  tax :: 'n
  total :: 'n

text \<open>
  What the component reads from its surroundings in one render: \<open>cart\<close> and
  \<open>getTotalPrice\<close> are \<open>cartItems\<close> and the value of \<open>getTotalPrice()\<close> from \<open>useCart()\<close>,
  \<open>formatPrice\<close> comes from \<open>useCurrency()\<close>, \<open>calculatePricing\<close> is the imported pricing
  function and \<open>API_URL\<close> the configured base URL.
\<close>

record ('n, 'c) env =
  cart :: "'c list"
  getTotalPrice :: 'n
  formatPrice :: "'n \<Rightarrow> jsstring"
  calculatePricing :: "'n \<Rightarrow> 'n pricing"
  API_URL :: jsstring

text \<open>
  Modelled from the spec: \<open>calculatePricing\<close> of \<open>utils/pricing\<close>, whose source is not part
  of the unit. The spec fixes its output as \<open>{shipping, tax, total}\<close> with
  \<open>total = subtotal + shipping + tax\<close>, shipping and tax being functions of the subtotal
  alone whose thresholds and rates it leaves to the pricing policy; the two policies are
  parameters here.
\<close>

definition specCalculatePricing :: "('n \<Rightarrow> 'n) \<Rightarrow> ('n \<Rightarrow> 'n) \<Rightarrow> 'n::plus \<Rightarrow> 'n pricing" where
  "specCalculatePricing shippingPolicy taxPolicy subtotal =
     \<lparr>shipping = shippingPolicy subtotal,
      tax = taxPolicy subtotal,
      total = subtotal + shippingPolicy subtotal + taxPolicy subtotal\<rparr>"

section \<open>The payment-link request\<close>

text \<open>
  The object literal passed to \<open>axios.post\<close>. A destructured form field that is missing
  is \<open>undefined\<close> (\<open>None\<close>); inside the template literal it prints as \<open>undefined\<close>.
\<close>

record shippingAddress =
  address1 :: "jsstring option"
  address2 :: "jsstring option"
  city :: "jsstring option"
  state :: "jsstring option"
  postalCode :: "jsstring option"
  country :: "jsstring option"

record ('n, 'c) paymentLinkBody =
  totalAmount :: 'n
  cartItems :: "'c list"
  userName :: jsstring
  userEmail :: "jsstring option"
  userPhone :: "jsstring option"
  shippingAddress :: shippingAddress

definition template :: "jsstring option \<Rightarrow> jsstring" where
  "template v = (case v of None \<Rightarrow> js ''undefined'' | Some s \<Rightarrow> s)"

definition requestBody :: "('n, 'c) env \<Rightarrow> formData \<Rightarrow> ('n, 'c) paymentLinkBody" where
  "requestBody env fd =
     \<lparr>totalAmount = total (calculatePricing env (getTotalPrice env)),
      cartItems = cart env,
      userName = template (fd (js ''firstName'')) @ js '' '' @ template (fd (js ''lastName'')),
      userEmail = fd (js ''email''),
      userPhone = fd (js ''phone''),
      shippingAddress =
        \<lparr>address1 = fd (js ''address1''),
         address2 = fd (js ''address2''),
         city = fd (js ''city''),
         state = fd (js ''state''),
         postalCode = fd (js ''postalCode''),
         country = fd (js ''country'')\<rparr>\<rparr>"

section \<open>The response\<close>

datatype jsval =
    JUndefined
  | JNull
  | JBool bool
  | JNum rat
  | JStr jsstring
  | JArr "jsval list"
  | JObj "(jsstring \<times> jsval) list"

text \<open>
  Property read \<open>v.k\<close>: a TypeError on \<open>undefined\<close> and \<open>null\<close>, the member of an object
  (an object is kept as its list of members, looked up by key), and \<open>undefined\<close> on any
  other value. It is used with the keys \<open>paymentLink\<close> and \<open>short_url\<close> only, which no
  built-in prototype defines.
\<close>

fun getProp :: "jsval \<Rightarrow> jsstring \<Rightarrow> jserror + jsval" where
  "getProp JUndefined k = Inl TypeError"
| "getProp JNull k = Inl TypeError"
| "getProp (JObj members) k =
     (case map_of members k of None \<Rightarrow> Inr JUndefined | Some v \<Rightarrow> Inr v)"
| "getProp v k = Inr JUndefined"

text \<open>
  How the HTTP exchange ends. \<open>axios.post\<close> rejects on a transport failure and, with its
  default \<open>validateStatus\<close>, on every status outside 200..299; otherwise it resolves with
  a response whose \<open>data\<close> is the parsed body.
\<close>

datatype httpOutcome = NetworkError | HttpResponse nat jsval

definition axiosPost :: "httpOutcome \<Rightarrow> jserror + jsval" where
  "axiosPost outcome =
     (case outcome of
        NetworkError \<Rightarrow> Inl AxiosError
      | HttpResponse status body \<Rightarrow>
          if 200 \<le> status \<and> status < 300 then Inr body else Inl AxiosError)"

text \<open>\<open>res.data.paymentLink.short_url\<close>\<close>

definition extractLink :: "jsval \<Rightarrow> jserror + jsval" where
  "extractLink body =
     (case getProp body (js ''paymentLink'') of
        Inl e \<Rightarrow> Inl e
      | Inr paymentLink \<Rightarrow> getProp paymentLink (js ''short_url''))"

section \<open>Submission\<close>

text \<open>What the component does to the outside, in the order it does it.\<close>

datatype ('n, 'c) effect =
    PreventDefault
  | ShowToast toast
  | AxiosPost jsstring "('n, 'c) paymentLinkBody"
  | ConsoleError
  | SetTimeout nat
  | AssignLocationHref jsval
  | Navigate jsstring

text \<open>
  \<open>handleSubmit\<close> is an async function with two \<open>await\<close>s. It is modelled as three
  stages, each run on the component state of the moment it runs at and returning the new
  state, its effects and where the function is suspended next.
\<close>

datatype continuation = Finished | AwaitingPost | AwaitingTimer jsval

text \<open>Up to \<open>await axios.post(...)\<close>.\<close>

definition handleSubmit ::
  "('n, 'c) env \<Rightarrow> checkout \<Rightarrow> checkout \<times> ('n, 'c) effect list \<times> continuation" where
  "handleSubmit env st =
     (case validateForm (formData st) of
        (False, toasts) \<Rightarrow> (st, PreventDefault # map ShowToast toasts, Finished)
      | (True, toasts) \<Rightarrow>
          (st\<lparr>animateTruck := True, isProcessing := True\<rparr>,
           PreventDefault # map ShowToast toasts @
             [AxiosPost (API_URL env @ js ''/api/payment-link'') (requestBody env (formData st))],
           AwaitingPost))"

definition failureToast :: toast where
  "failureToast =
     \<lparr>title = js ''Error'',
      description = js ''Failed to generate payment link. Please try again.'',
      variant = js ''destructive''\<rparr>"

text \<open>The \<open>catch\<close> block followed by \<open>finally\<close>.\<close>

definition catchFinally :: "checkout \<Rightarrow> checkout \<times> ('n, 'c) effect list \<times> continuation" where
  "catchFinally st =
     (st\<lparr>animateTruck := False, isProcessing := False\<rparr>,
      [ConsoleError, ShowToast failureToast],
      Finished)"

text \<open>
  From the settling of the request to \<open>await new Promise((resolve) => setTimeout(resolve, 1500))\<close>,
  or through \<open>catch\<close> and \<open>finally\<close> when the request rejects or the link cannot be read.
\<close>

definition handleSubmitSettled ::
  "httpOutcome \<Rightarrow> checkout \<Rightarrow> checkout \<times> ('n, 'c) effect list \<times> continuation" where
  "handleSubmitSettled outcome st =
     (case axiosPost outcome of
        Inl e \<Rightarrow> catchFinally st
      | Inr body \<Rightarrow>
          (case extractLink body of
             Inl e \<Rightarrow> catchFinally st
           | Inr link \<Rightarrow> (st, [SetTimeout 1500], AwaitingTimer link)))"

text \<open>
  \<open>window.location.href = link\<close>. The setter converts the value to a string and parses it
  against the URL of the document; when parsing fails it throws a SyntaxError and nothing
  is navigated to. The browser's parser is not part of the unit: \<open>parsesAsURL\<close> tells
  whether a value, so converted, parses.
\<close>

definition assignLocationHref :: "(jsval \<Rightarrow> bool) \<Rightarrow> jsval \<Rightarrow> jserror + ('n, 'c) effect" where
  "assignLocationHref parsesAsURL link =
     (if parsesAsURL link then Inr (AssignLocationHref link) else Inl SyntaxError)"

text \<open>
  After the timer: the assignment, which is still inside the \<open>try\<close>, then \<open>finally\<close>; or
  through \<open>catch\<close> and \<open>finally\<close> when the assignment throws. What follows a successful
  assignment (the page being unloaded) is outside the model.
\<close>

definition handleSubmitTimer ::
  "(jsval \<Rightarrow> bool) \<Rightarrow> jsval \<Rightarrow> checkout \<Rightarrow> checkout \<times> ('n, 'c) effect list \<times> continuation" where
  "handleSubmitTimer parsesAsURL link st =
     (case assignLocationHref parsesAsURL link of
        Inl e \<Rightarrow> catchFinally st
      | Inr navigation \<Rightarrow> (st\<lparr>isProcessing := False\<rparr>, [navigation], Finished))"

text \<open>The user typing while the function is suspended: a run of field changes.\<close>

fun typing :: "(jsstring \<times> jsstring) list \<Rightarrow> checkout \<Rightarrow> checkout" where
  "typing [] st = st"
| "typing ((name, val) # later) st = typing later (handleInputChange name val st)"

text \<open>The payment-link requests among some effects.\<close>

fun requests :: "('n, 'c) effect list \<Rightarrow> (jsstring \<times> ('n, 'c) paymentLinkBody) list" where
  "requests [] = []"
| "requests (AxiosPost url body # fx) = (url, body) # requests fx"
| "requests (e # fx) = requests fx"

section \<open>Empty-cart guard and order summary\<close>

text \<open>The body of the effect: \<open>if (subtotal === 0) navigate("/cart")\<close>.\<close>

definition redirectIfEmpty :: "'n::zero \<Rightarrow> ('n, 'c) effect list" where
  "redirectIfEmpty subtotal = (if subtotal = 0 then [Navigate (js ''/cart'')] else [])"

text \<open>
  \<open>useEffect(..., [subtotal, navigate])\<close> after a render: the body runs on mount
  (no previous subtotal) and whenever \<open>subtotal\<close> or \<open>navigate\<close> differs from the
  previous render.
\<close>

definition emptyCartEffect :: "'n option \<Rightarrow> bool \<Rightarrow> 'n::zero \<Rightarrow> ('n, 'c) effect list" where
  "emptyCartEffect previous navigateChanged subtotal =
     (if previous \<noteq> Some subtotal \<or> navigateChanged then redirectIfEmpty subtotal else [])"

record summaryRow =
  rowLabel :: jsstring
  rowValue :: jsstring

text \<open>The three \<open>SummaryRow\<close>s of the order summary.\<close>

definition summaryRows :: "('n::zero, 'c) env \<Rightarrow> summaryRow list" where
  "summaryRows env =
     (let subtotal = getTotalPrice env;
          p = calculatePricing env subtotal
      in [\<lparr>rowLabel = js ''Subtotal'', rowValue = formatPrice env subtotal\<rparr>,
          \<lparr>rowLabel = js ''Shipping'',
           rowValue = (if shipping p = 0 then js ''Free'' else formatPrice env (shipping p))\<rparr>,
          \<lparr>rowLabel = js ''Tax'', rowValue = formatPrice env (tax p)\<rparr>])"

text \<open>A completed form, with padding left around two of its values.\<close>

definition filledForm :: formData where
  "filledForm = Map.empty
     (js ''email'' \<mapsto> js '' a@b.in '',
      js ''firstName'' \<mapsto> js ''Asha'',
      js ''lastName'' \<mapsto> js ''Rao '',
      js ''phone'' \<mapsto> js ''9876543210'',
      js ''address1'' \<mapsto> js ''12 Hill Road'',
      js ''address2'' \<mapsto> [],
      js ''city'' \<mapsto> js ''Pune'',
      js ''state'' \<mapsto> js ''MH'',
      js ''postalCode'' \<mapsto> js ''411001'',
      js ''country'' \<mapsto> js ''India'')"

text \<open>
  A shop to run the component in: amounts are integers (paise), shipping costs 50 below a
  subtotal of 1000 and nothing from there on, tax is a tenth of the subtotal, and a price
  is printed as its decimal digits after \<open>Rs\<close>.
\<close>

fun decimal :: "nat \<Rightarrow> jsstring" where
  "decimal n = (if n < 10 then [0x30 + of_nat n] else decimal (n div 10) @ [0x30 + of_nat (n mod 10)])"

declare decimal.simps [simp del]

definition shop :: "int \<Rightarrow> (int, jsstring) env" where
  "shop subtotal =
     \<lparr>cart = (if subtotal = 0 then [] else [js ''silk saree'']),
      getTotalPrice = subtotal,
      formatPrice = (\<lambda>n. js ''Rs '' @ decimal (nat n)),
      calculatePricing =
        specCalculatePricing (\<lambda>s. if s < 1000 then 50 else 0) (\<lambda>s. s div 10),
      API_URL = js ''https://shop.example''\<rparr>"

definition filledCheckout :: checkout where
  "filledCheckout = \<lparr>formData = filledForm, isProcessing = False, animateTruck = False\<rparr>"

text \<open>
  The URL parser of the browser the shop is opened in. Of the URL Standard it knows that
  a special scheme with an empty host does not parse (\<open>http://\<close>, \<open>https://\<close>); the other
  values it is given here do parse: a complete \<open>https\<close> URL, and \<open>undefined\<close>, which is
  converted to the string \<open>undefined\<close> and parses as a relative URL.
\<close>

definition browser :: "jsval \<Rightarrow> bool" where
  "browser v \<longleftrightarrow> v \<noteq> JStr (js ''http://'') \<and> v \<noteq> JStr (js ''https://'')"

definition paidResponse :: httpOutcome where
  "paidResponse =
     HttpResponse 200
       (JObj [(js ''paymentLink'', JObj [(js ''short_url'', JStr (js ''https://pay.example/abc''))])])"

section \<open>Strings and validation: basic facts\<close>

lemma trim_Nil_iff: "trim s = [] \<longleftrightarrow> (\<forall>c\<in>set s. isWhiteSpace c)"
proof
  assume "trim s = []"
  then have "dropWhile isWhiteSpace (rev (dropWhile isWhiteSpace s)) = []"
    by (simp add: trim_def)
  then have "\<forall>c\<in>set (dropWhile isWhiteSpace s). isWhiteSpace c"
    by simp
  then have "dropWhile isWhiteSpace s = []"
    by (metis dropWhile_eq_Nil_conv dropWhile_idem)
  then show "\<forall>c\<in>set s. isWhiteSpace c" by simp
next
  assume a: "\<forall>c\<in>set s. isWhiteSpace c"
  have d: "dropWhile isWhiteSpace s = []" using a by simp
  show "trim s = []" unfolding trim_def d by simp
qed

lemma requiredFields_ascii: "\<forall>f\<in>set requiredFields. \<forall>c\<in>set f. c < 0x80"
  by (simp add: requiredFields_def js_def)

lemma address2_not_required: "js ''address2'' \<notin> set requiredFields"
  by (simp add: requiredFields_def js_def)

lemma validateFields_ok_iff:
  "fst (validateFields fd fs) \<longleftrightarrow> (\<forall>f\<in>set fs. \<not> notTrimmed (fd f))"
  by (induction fs) simp_all

lemma validateFields_ok_toasts:
  "fst (validateFields fd fs) \<Longrightarrow> snd (validateFields fd fs) = []"
  by (induction fs) (simp_all split: if_splits)

lemma everyFilled_defined:
  "\<forall>f\<in>set fs. fd f \<noteq> None \<Longrightarrow>
   everyFilled fd fs = Inr (\<forall>f\<in>set fs. \<not> notTrimmed (fd f))"
  by (induction fs) (auto simp: notTrimmed_def split: option.splits)

lemma validateFields_first_missing:
  "\<not> fst (validateFields fd fs) \<Longrightarrow>
   \<exists>pre f post. fs = pre @ f # post \<and> (\<forall>g\<in>set pre. \<not> notTrimmed (fd g)) \<and>
     notTrimmed (fd f) \<and> snd (validateFields fd fs) = [missingFieldToast f]"
proof (induction fs)
  case Nil
  then show ?case by simp
next
  case (Cons a fs)
  show ?case
  proof (cases "notTrimmed (fd a)")
    case True
    then have "a # fs = [] @ a # fs \<and> (\<forall>g\<in>set []. \<not> notTrimmed (fd g)) \<and>
       notTrimmed (fd a) \<and> snd (validateFields fd (a # fs)) = [missingFieldToast a]"
      by simp
    then show ?thesis by (intro exI)
  next
    case False
    with Cons.prems have "\<not> fst (validateFields fd fs)" by simp
    from Cons.IH[OF this] obtain pre f post where
      h: "fs = pre @ f # post" "\<forall>g\<in>set pre. \<not> notTrimmed (fd g)" "notTrimmed (fd f)"
         "snd (validateFields fd fs) = [missingFieldToast f]" by blast
    with False have "a # fs = (a # pre) @ f # post \<and>
       (\<forall>g\<in>set (a # pre). \<not> notTrimmed (fd g)) \<and>
       notTrimmed (fd f) \<and> snd (validateFields fd (a # fs)) = [missingFieldToast f]"
      by simp
    then show ?thesis by (intro exI)
  qed
qed

lemma validateForm_ok_iff:
  "fst (validateForm fd) \<longleftrightarrow> (\<forall>f\<in>set requiredFields. \<exists>v. fd f = Some v \<and> trim v \<noteq> [])"
  by (auto simp: validateForm_def validateFields_ok_iff notTrimmed_def split: option.splits)

lemma isFormValid_defined:
  "\<forall>f\<in>set requiredFields. fd f \<noteq> None \<Longrightarrow>
   isFormValid fd = Inr (\<forall>f\<in>set requiredFields. \<exists>v. fd f = Some v \<and> trim v \<noteq> [])"
  by (auto simp: isFormValid_def everyFilled_defined notTrimmed_def split: option.splits)

lemma all_filled_valid:
  assumes ok: "\<forall>f\<in>set requiredFields. \<exists>v. g f = Some v \<and> trim v \<noteq> []"
  shows "fst (validateForm g) \<and> isFormValid g = Inr True"
proof -
  from ok have d: "\<forall>f\<in>set requiredFields. g f \<noteq> None" by fastforce
  show ?thesis using ok by (simp add: validateForm_ok_iff isFormValid_defined [OF d])
qed

lemma some_blank_invalid:
  assumes d: "\<forall>f\<in>set requiredFields. g f \<noteq> None"
    and blank: "\<exists>f\<in>set requiredFields. \<exists>v. g f = Some v \<and> trim v = []"
  shows "\<not> fst (validateForm g) \<and> isFormValid g = Inr False"
proof -
  from blank have "\<not> (\<forall>f\<in>set requiredFields. \<exists>v. g f = Some v \<and> trim v \<noteq> [])"
    by fastforce
  then show ?thesis by (simp add: validateForm_ok_iff isFormValid_defined [OF d])
qed

lemma filledForm_lookup:
  "filledForm (js ''email'') = Some (js '' a@b.in '')"
  "filledForm (js ''firstName'') = Some (js ''Asha'')"
  "filledForm (js ''lastName'') = Some (js ''Rao '')"
  "filledForm (js ''phone'') = Some (js ''9876543210'')"
  "filledForm (js ''address1'') = Some (js ''12 Hill Road'')"
  "filledForm (js ''address2'') = Some []"
  "filledForm (js ''city'') = Some (js ''Pune'')"
  "filledForm (js ''state'') = Some (js ''MH'')"
  "filledForm (js ''postalCode'') = Some (js ''411001'')"
  "filledForm (js ''country'') = Some (js ''India'')"
  by (simp_all add: filledForm_def js_def)

lemma filledForm_trimmed:
  "trim (js '' a@b.in '') = js ''a@b.in''"
  "trim (js ''Asha'') = js ''Asha''"
  "trim (js ''Rao '') = js ''Rao''"
  "trim (js ''9876543210'') = js ''9876543210''"
  "trim (js ''12 Hill Road'') = js ''12 Hill Road''"
  "trim (js ''Pune'') = js ''Pune''"
  "trim (js ''MH'') = js ''MH''"
  "trim (js ''411001'') = js ''411001''"
  "trim (js ''India'') = js ''India''"
  by (simp_all add: trim_def js_def isWhiteSpace_def)

lemma filledForm_required: "\<forall>f\<in>set requiredFields. \<exists>v. filledForm f = Some v \<and> trim v \<noteq> []"
  by (simp add: requiredFields_def filledForm_lookup filledForm_trimmed) (simp add: js_def)

section \<open>Field changes\<close>

text \<open>
  C9. For every field name and every new string value, \<open>handleInputChange\<close> replaces the
  value of exactly that field of the form state by the value as given (nothing is trimmed
  or normalised), leaves every other field as it was, and does not touch the rest of the
  component state.
\<close>

theorem handleInputChange_frame:
  "formData (handleInputChange name val st) name = Some val \<and>
   (\<forall>other. other \<noteq> name \<longrightarrow>
      formData (handleInputChange name val st) other = formData st other) \<and>
   isProcessing (handleInputChange name val st) = isProcessing st \<and>
   animateTruck (handleInputChange name val st) = animateTruck st"
  by (simp add: handleInputChange_def)

theorem handleInputChange_frame_witness:
  "formData (handleInputChange (js ''city'') (js '' Pune '') initialCheckout) (js ''city'')
     = Some (js '' Pune '') \<and>
   js ''email'' \<noteq> js ''city'' \<and>
   formData (handleInputChange (js ''city'') (js '' Pune '') initialCheckout) (js ''email'')
     = Some []"
  using handleInputChange_frame [of "js ''city''" "js '' Pune ''" initialCheckout]
  by (simp add: js_def initialCheckout_def initialFormData_def)

section \<open>Validation completeness\<close>

text \<open>
  C2. Take any form whose required fields all hold a string. If at least one required
  field is empty once trimmed (it is empty or consists of white space only, see
  \<open>trim_Nil_iff\<close>), \<open>validateForm\<close> returns false and \<open>isFormValid\<close> is false. If every
  required field is non-empty once trimmed, \<open>validateForm\<close> returns true and
  \<open>isFormValid\<close> is true, whatever \<open>address2\<close> holds, even nothing at all.
\<close>

theorem validation_completeness:
  assumes "\<forall>f\<in>set requiredFields. fd f \<noteq> None"
  shows "((\<exists>f\<in>set requiredFields. \<exists>v. fd f = Some v \<and> trim v = []) \<longrightarrow>
            \<not> fst (validateForm fd) \<and> isFormValid fd = Inr False) \<and>
         ((\<forall>f\<in>set requiredFields. \<exists>v. fd f = Some v \<and> trim v \<noteq> []) \<longrightarrow>
            (\<forall>a2. fst (validateForm (fd(js ''address2'' := a2))) \<and>
                  isFormValid (fd(js ''address2'' := a2)) = Inr True))"
proof (rule conjI)
  show "(\<exists>f\<in>set requiredFields. \<exists>v. fd f = Some v \<and> trim v = []) \<longrightarrow>
        \<not> fst (validateForm fd) \<and> isFormValid fd = Inr False"
  proof
    assume "\<exists>f\<in>set requiredFields. \<exists>v. fd f = Some v \<and> trim v = []"
    then show "\<not> fst (validateForm fd) \<and> isFormValid fd = Inr False"
      by (rule some_blank_invalid [OF assms])
  qed
next
  show "(\<forall>f\<in>set requiredFields. \<exists>v. fd f = Some v \<and> trim v \<noteq> []) \<longrightarrow>
        (\<forall>a2. fst (validateForm (fd(js ''address2'' := a2))) \<and>
              isFormValid (fd(js ''address2'' := a2)) = Inr True)"
  proof (rule impI, rule allI)
    fix a2
    assume ok: "\<forall>f\<in>set requiredFields. \<exists>v. fd f = Some v \<and> trim v \<noteq> []"
    have "\<forall>f\<in>set requiredFields.
            \<exists>v. (fd(js ''address2'' := a2)) f = Some v \<and> trim v \<noteq> []"
      using ok address2_not_required by simp
    then show "fst (validateForm (fd(js ''address2'' := a2))) \<and>
               isFormValid (fd(js ''address2'' := a2)) = Inr True"
      by (rule all_filled_valid)
  qed
qed

theorem validation_completeness_witness:
  "list_all (\<lambda>f. \<exists>v. filledForm f = Some v \<and> trim v \<noteq> []) requiredFields \<and>
   fst (validateForm (filledForm(js ''address2'' := None))) \<and>
   isFormValid (filledForm(js ''address2'' := None)) = Inr True \<and>
   list_all (\<lambda>f. initialFormData f \<noteq> None) requiredFields \<and>
   list_ex (\<lambda>f. \<exists>v. initialFormData f = Some v \<and> trim v = []) requiredFields \<and>
   \<not> fst (validateForm initialFormData) \<and>
   isFormValid initialFormData = Inr False"
proof -
  have d: "\<forall>f\<in>set requiredFields. filledForm f \<noteq> None"
    using filledForm_required by fastforce
  have d0: "\<forall>f\<in>set requiredFields. initialFormData f \<noteq> None"
    by (simp add: requiredFields_def initialFormData_def js_def)
  have b0: "\<exists>f\<in>set requiredFields. \<exists>v. initialFormData f = Some v \<and> trim v = []"
    by (simp add: requiredFields_def initialFormData_def trim_def js_def)
  have 1: "fst (validateForm (filledForm(js ''address2'' := None))) \<and>
   isFormValid (filledForm(js ''address2'' := None)) = Inr True"
    using validation_completeness [OF d, THEN conjunct2, THEN mp, OF filledForm_required]
    by (rule spec)
  have 2: "\<not> fst (validateForm initialFormData) \<and> isFormValid initialFormData = Inr False"
    using validation_completeness [OF d0, THEN conjunct1, THEN mp, OF b0] .
  from filledForm_required 1 d0 b0 2 show ?thesis by (simp add: list_all_iff list_ex_iff)
qed

section \<open>The validation message\<close>

lemma humanize_firstName: "toLowerCase (replaceCapitals (js ''firstName'')) = js ''first name''"
  by (simp add: js_def toLowerCase_def isAsciiUpper_def)

lemma firstName_toast:
  "missingFieldToast (js ''firstName'') =
     \<lparr>title = js ''Error'', description = js ''Please fill in the first name field.'',
      variant = js ''destructive''\<rparr>"
  unfolding missingFieldToast_def humanize_firstName by (simp add: js_def)

lemma validateForm_firstName:
  assumes "\<not> notTrimmed (fd (js ''email''))" and "notTrimmed (fd (js ''firstName''))"
  shows "validateForm fd = (False, [missingFieldToast (js ''firstName'')])"
  using assms by (simp add: validateForm_def requiredFields_def)

text \<open>
  C3. When \<open>validateForm\<close> fails it shows exactly one toast, and that toast names the
  first field, in the order of \<open>requiredFields\<close>, whose trimmed value is empty (or which is
  missing): its description is built from the field's identifier with a space put
  before each capital and everything lower-cased. In particular, when the email is
  filled in and \<open>firstName\<close> is not, the toast reads \<open>first name\<close>, not \<open>firstName\<close>.
\<close>

theorem validateForm_names_first_missing:
  "(\<not> fst (validateForm fd) \<longrightarrow>
      (\<exists>pre field post.
         requiredFields = pre @ field # post \<and>
         (\<forall>g\<in>set pre. \<not> notTrimmed (fd g)) \<and>
         notTrimmed (fd field) \<and>
         snd (validateForm fd) =
           [\<lparr>title = js ''Error'',
             description =
               js ''Please fill in the '' @ toLowerCase (replaceCapitals field) @ js '' field.'',
             variant = js ''destructive''\<rparr>])) \<and>
   (\<not> notTrimmed (fd (js ''email'')) \<and> notTrimmed (fd (js ''firstName'')) \<longrightarrow>
      validateForm fd =
        (False,
         [\<lparr>title = js ''Error'',
           description = js ''Please fill in the first name field.'',
           variant = js ''destructive''\<rparr>]))"
proof (rule conjI)
  show "\<not> fst (validateForm fd) \<longrightarrow>
      (\<exists>pre field post.
         requiredFields = pre @ field # post \<and>
         (\<forall>g\<in>set pre. \<not> notTrimmed (fd g)) \<and>
         notTrimmed (fd field) \<and>
         snd (validateForm fd) =
           [\<lparr>title = js ''Error'',
             description =
               js ''Please fill in the '' @ toLowerCase (replaceCapitals field) @ js '' field.'',
             variant = js ''destructive''\<rparr>])"
  proof
    assume "\<not> fst (validateForm fd)"
    then have "\<not> fst (validateFields fd requiredFields)" by (simp add: validateForm_def)
    from validateFields_first_missing [OF this]
    show "\<exists>pre field post.
         requiredFields = pre @ field # post \<and>
         (\<forall>g\<in>set pre. \<not> notTrimmed (fd g)) \<and>
         notTrimmed (fd field) \<and>
         snd (validateForm fd) =
           [\<lparr>title = js ''Error'',
             description =
               js ''Please fill in the '' @ toLowerCase (replaceCapitals field) @ js '' field.'',
             variant = js ''destructive''\<rparr>]"
      by (simp only: validateForm_def missingFieldToast_def)
  qed
next
  show "\<not> notTrimmed (fd (js ''email'')) \<and> notTrimmed (fd (js ''firstName'')) \<longrightarrow>
      validateForm fd =
        (False,
         [\<lparr>title = js ''Error'',
           description = js ''Please fill in the first name field.'',
           variant = js ''destructive''\<rparr>])"
    by (simp only: firstName_toast [symmetric]) (simp add: validateForm_firstName)
qed

lemma js_Cons_not_Nil: "js (c # s) \<noteq> []"
  by (simp add: js_def)

lemma blankFirstName_lookup:
  "(filledForm(js ''firstName'' \<mapsto> js ''  '')) (js ''email'') = Some (js '' a@b.in '')"
  "(filledForm(js ''firstName'' \<mapsto> js ''  '')) (js ''firstName'') = Some (js ''  '')"
  by (simp_all add: filledForm_def js_def)

lemma trim_blanks: "trim (js ''  '') = []"
  by (simp add: trim_def js_def isWhiteSpace_def)

theorem validateForm_names_first_missing_witness:
  "\<not> notTrimmed ((filledForm(js ''firstName'' \<mapsto> js ''  '')) (js ''email'')) \<and>
   notTrimmed ((filledForm(js ''firstName'' \<mapsto> js ''  '')) (js ''firstName'')) \<and>
   validateForm (filledForm(js ''firstName'' \<mapsto> js ''  '')) =
     (False,
      [\<lparr>title = js ''Error'',
        description = js ''Please fill in the first name field.'',
        variant = js ''destructive''\<rparr>]) \<and>
   \<not> fst (validateForm (filledForm(js ''firstName'' \<mapsto> js ''  ''))) \<and>
   (\<exists>pre field post.
      requiredFields = pre @ field # post \<and>
      (\<forall>g\<in>set pre. \<not> notTrimmed ((filledForm(js ''firstName'' \<mapsto> js ''  '')) g)) \<and>
      notTrimmed ((filledForm(js ''firstName'' \<mapsto> js ''  '')) field) \<and>
      snd (validateForm (filledForm(js ''firstName'' \<mapsto> js ''  ''))) =
        [\<lparr>title = js ''Error'',
          description =
            js ''Please fill in the '' @ toLowerCase (replaceCapitals field) @ js '' field.'',
          variant = js ''destructive''\<rparr>])"
proof -
  let ?fd = "filledForm(js ''firstName'' \<mapsto> js ''  '')"
  note main = validateForm_names_first_missing [of ?fd]
  have a: "\<not> notTrimmed (?fd (js ''email''))"
    by (simp only: blankFirstName_lookup notTrimmed_def option.case filledForm_trimmed
        js_Cons_not_Nil not_False_eq_True)
  have b: "notTrimmed (?fd (js ''firstName''))"
    by (simp only: blankFirstName_lookup notTrimmed_def option.case trim_blanks)
  from a b have ab: "\<not> notTrimmed (?fd (js ''email'')) \<and> notTrimmed (?fd (js ''firstName''))" ..
  note c = main [THEN conjunct2, THEN mp, OF ab]
  have d: "\<not> fst (validateForm ?fd)" by (simp only: c fst_conv not_False_eq_True)
  note e = main [THEN conjunct1, THEN mp, OF d]
  from a b c d e show ?thesis by (intro conjI)
qed

section \<open>Pricing\<close>

text \<open>
  C7. For every non-negative subtotal, the breakdown that \<open>calculatePricing\<close> returns
  satisfies \<open>total = subtotal + shipping + tax\<close>, whatever the shipping and tax policies
  and whatever the arithmetic of the amounts.
\<close>

theorem pricing_total:
  fixes subtotal :: "'n::{zero,plus,ord}"
  shows "0 \<le> subtotal \<longrightarrow>
     total (specCalculatePricing shippingPolicy taxPolicy subtotal) =
       subtotal + shipping (specCalculatePricing shippingPolicy taxPolicy subtotal)
                + tax (specCalculatePricing shippingPolicy taxPolicy subtotal)"
  by (simp add: specCalculatePricing_def)

theorem pricing_total_witness:
  "(0::int) \<le> 400 \<and>
   total (calculatePricing (shop 400) (getTotalPrice (shop 400))) = 490 \<and>
   shipping (calculatePricing (shop 400) (getTotalPrice (shop 400))) = 50 \<and>
   tax (calculatePricing (shop 400) (getTotalPrice (shop 400))) = 40"
  using pricing_total [of "400::int" "\<lambda>s. if s < 1000 then 50 else 0" "\<lambda>s. s div 10"]
  by (simp add: shop_def specCalculatePricing_def)

section \<open>The order summary\<close>

text \<open>
  C8. The second row of the order summary is the shipping row. Whenever the computed
  shipping amount is exactly 0 it shows the literal \<open>Free\<close>; whenever it is not 0 it shows
  the amount as \<open>formatPrice\<close> prints it.
\<close>

theorem shipping_row:
  "length (summaryRows env) = 3 \<and>
   rowLabel (summaryRows env ! 1) = js ''Shipping'' \<and>
   (shipping (calculatePricing env (getTotalPrice env)) = 0 \<longrightarrow>
      rowValue (summaryRows env ! 1) = js ''Free'') \<and>
   (shipping (calculatePricing env (getTotalPrice env)) \<noteq> 0 \<longrightarrow>
      rowValue (summaryRows env ! 1) =
        formatPrice env (shipping (calculatePricing env (getTotalPrice env))))"
  by (simp add: summaryRows_def Let_def)

lemma shop_shipping:
  "shipping (calculatePricing (shop 400) (getTotalPrice (shop 400))) = 50"
  "shipping (calculatePricing (shop 2500) (getTotalPrice (shop 2500))) = 0"
  by (simp_all add: shop_def specCalculatePricing_def)

lemma shop_formatPrice_50: "formatPrice (shop 400) 50 = js ''Rs 50''"
  by (simp add: shop_def js_def decimal.simps)

theorem shipping_row_witness:
  "shipping (calculatePricing (shop 2500) (getTotalPrice (shop 2500))) = 0 \<and>
   rowValue (summaryRows (shop 2500) ! 1) = js ''Free'' \<and>
   shipping (calculatePricing (shop 400) (getTotalPrice (shop 400))) \<noteq> 0 \<and>
   rowValue (summaryRows (shop 400) ! 1) = js ''Rs 50''"
  using shipping_row [of "shop 2500"] shipping_row [of "shop 400"]
  by (simp add: shop_shipping shop_formatPrice_50)

section \<open>Submitting: the first stage\<close>

lemma requests_append: "requests (xs @ ys) = requests xs @ requests ys"
  by (induction xs rule: requests.induct) simp_all

lemma requests_toasts: "requests (map ShowToast ts) = []"
  by (induction ts) simp_all

lemma handleSubmit_valid:
  assumes "fst (validateForm (formData st))"
  shows "handleSubmit env st =
     (st\<lparr>animateTruck := True, isProcessing := True\<rparr>,
      [PreventDefault,
       AxiosPost (API_URL env @ js ''/api/payment-link'') (requestBody env (formData st))],
      AwaitingPost)"
proof -
  from assms have "snd (validateForm (formData st)) = []"
    by (simp add: validateForm_def validateFields_ok_toasts)
  with assms have "validateForm (formData st) = (True, [])"
    by (cases "validateForm (formData st)") simp
  then show ?thesis by (simp add: handleSubmit_def)
qed

lemma handleSubmit_invalid:
  assumes "\<not> fst (validateForm (formData st))"
  shows "handleSubmit env st =
     (st, PreventDefault # map ShowToast (snd (validateForm (formData st))), Finished)"
proof -
  from assms obtain ts where "validateForm (formData st) = (False, ts)"
    by (cases "validateForm (formData st)") simp
  then show ?thesis by (simp add: handleSubmit_def)
qed

lemma filledForm_valid: "fst (validateForm filledForm)"
  using filledForm_required by (simp add: validateForm_ok_iff)

lemma filledCheckout_valid: "fst (validateForm (formData filledCheckout))"
  using filledForm_valid by (simp add: filledCheckout_def)

section \<open>The empty-cart guard\<close>

text \<open>
  C1, as the code has it. After every render at which the effect runs (on mount, or when
  \<open>subtotal\<close> or \<open>navigate\<close> changed since the previous render) and the live subtotal is
  exactly 0, the component navigates to the cart page; the guard does not look at the
  component state, and does nothing when the subtotal is not 0. It is not a check made at
  request time: \<open>handleSubmit\<close> never reads the subtotal, so a submission attempted while
  the subtotal is 0 issues the payment-link request exactly when \<open>validateForm\<close> succeeds.
\<close>

theorem empty_cart_guard:
  "(subtotal = 0 \<and> (previous \<noteq> Some subtotal \<or> navigateChanged) \<longrightarrow>
      emptyCartEffect previous navigateChanged subtotal = [Navigate (js ''/cart'')]) \<and>
   (subtotal \<noteq> 0 \<longrightarrow> emptyCartEffect previous navigateChanged subtotal = []) \<and>
   (getTotalPrice env = 0 \<longrightarrow>
      (requests (fst (snd (handleSubmit env st))) \<noteq> [] \<longleftrightarrow> fst (validateForm (formData st))))"
proof (intro conjI)
  show "subtotal = 0 \<and> (previous \<noteq> Some subtotal \<or> navigateChanged) \<longrightarrow>
      emptyCartEffect previous navigateChanged subtotal = [Navigate (js ''/cart'')]"
    by (simp add: emptyCartEffect_def redirectIfEmpty_def)
  show "subtotal \<noteq> 0 \<longrightarrow> emptyCartEffect previous navigateChanged subtotal = []"
    by (simp add: emptyCartEffect_def redirectIfEmpty_def)
  show "getTotalPrice env = 0 \<longrightarrow>
      (requests (fst (snd (handleSubmit env st))) \<noteq> [] \<longleftrightarrow> fst (validateForm (formData st)))"
  proof (cases "fst (validateForm (formData st))")
    case True
    then show ?thesis by (simp add: handleSubmit_valid)
  next
    case False
    then show ?thesis by (simp add: handleSubmit_invalid requests_toasts)
  qed
qed

theorem empty_cart_guard_witness:
  "(0::int) = 0 \<and> None \<noteq> Some (0::int) \<and>
   (emptyCartEffect None False (0::int) :: (int, jsstring) effect list) = [Navigate (js ''/cart'')] \<and>
   (400::int) \<noteq> 0 \<and>
   (emptyCartEffect None False (400::int) :: (int, jsstring) effect list) = [] \<and>
   getTotalPrice (shop 0) = 0 \<and> fst (validateForm (formData filledCheckout)) \<and>
   requests (fst (snd (handleSubmit (shop 0) filledCheckout))) \<noteq> []"
proof -
  note guard = empty_cart_guard [of "0::int" None False "shop 0" filledCheckout]
  have s0: "getTotalPrice (shop 0) = 0" by (simp add: shop_def)
  have 1: "(emptyCartEffect None False (0::int) :: (int, jsstring) effect list)
             = [Navigate (js ''/cart'')]"
    using guard [THEN conjunct1] by simp
  have 2: "(emptyCartEffect None False (400::int) :: (int, jsstring) effect list) = []"
    using empty_cart_guard [of "400::int" None False "shop 0" filledCheckout,
        THEN conjunct2, THEN conjunct1]
    by simp
  have 3: "requests (fst (snd (handleSubmit (shop 0) filledCheckout))) \<noteq> []"
    using guard [THEN conjunct2, THEN conjunct2] s0 filledCheckout_valid by simp
  from 1 2 3 s0 filledCheckout_valid show ?thesis by simp
qed

text \<open>
  The claim C1 as stated fails: with an empty cart (subtotal 0) and a completed form,
  \<open>handleSubmit\<close> posts the payment-link request.
\<close>

theorem request_issued_with_empty_cart:
  "getTotalPrice (shop 0) = 0 \<and>
   handleSubmit (shop 0) filledCheckout =
     (filledCheckout\<lparr>animateTruck := True, isProcessing := True\<rparr>,
      [PreventDefault,
       AxiosPost (js ''https://shop.example/api/payment-link'')
         \<lparr>totalAmount = 50, cartItems = [], userName = js ''Asha Rao '',
          userEmail = Some (js '' a@b.in ''), userPhone = Some (js ''9876543210''),
          shippingAddress =
            \<lparr>address1 = Some (js ''12 Hill Road''), address2 = Some [],
             city = Some (js ''Pune''), state = Some (js ''MH''),
             postalCode = Some (js ''411001''), country = Some (js ''India'')\<rparr>\<rparr>],
      AwaitingPost)"
proof -
  note v = filledCheckout_valid
  have b: "requestBody (shop 0) (formData filledCheckout) =
         \<lparr>totalAmount = 50, cartItems = [], userName = js ''Asha Rao '',
          userEmail = Some (js '' a@b.in ''), userPhone = Some (js ''9876543210''),
          shippingAddress =
            \<lparr>address1 = Some (js ''12 Hill Road''), address2 = Some [],
             city = Some (js ''Pune''), state = Some (js ''MH''),
             postalCode = Some (js ''411001''), country = Some (js ''India'')\<rparr>\<rparr>"
    unfolding requestBody_def filledCheckout_def
    by (simp add: filledForm_lookup template_def) (simp add: shop_def specCalculatePricing_def js_def)
  have u: "API_URL (shop 0) @ js ''/api/payment-link'' = js ''https://shop.example/api/payment-link''"
    by (simp add: shop_def js_def)
  show ?thesis unfolding handleSubmit_valid [OF v] b u by (simp add: shop_def)
qed

section \<open>Field changes while a submission is under way\<close>

lemma typing_isProcessing: "isProcessing (typing keys st) = isProcessing st"
  by (induction keys st rule: typing.induct) (simp_all add: handleInputChange_def)

lemma typing_animateTruck: "animateTruck (typing keys st) = animateTruck st"
  by (induction keys st rule: typing.induct) (simp_all add: handleInputChange_def)

lemma typing_formData:
  "formData (typing keys st) name =
     (case map_of (rev keys) name of None \<Rightarrow> formData st name | Some v \<Rightarrow> Some v)"
proof (induction keys st rule: typing.induct)
  case (1 st)
  then show ?case by simp
next
  case (2 n v later st)
  show ?case
    by (simp only: typing.simps 2)
       (simp add: handleInputChange_def map_add_def split: option.splits)
qed

lemma typing_defined: "formData st f \<noteq> None \<Longrightarrow> formData (typing keys st) f \<noteq> None"
  by (simp add: typing_formData split: option.splits)

lemma required_filled:
  "fst (validateForm fd) \<Longrightarrow> f \<in> set requiredFields \<Longrightarrow> \<exists>v. fd f = Some v \<and> trim v \<noteq> []"
  by (simp add: validateForm_ok_iff)

lemma required_members:
  "js ''email'' \<in> set requiredFields"
  "js ''firstName'' \<in> set requiredFields"
  "js ''lastName'' \<in> set requiredFields"
  "js ''phone'' \<in> set requiredFields"
  "js ''address1'' \<in> set requiredFields"
  "js ''city'' \<in> set requiredFields"
  "js ''state'' \<in> set requiredFields"
  "js ''postalCode'' \<in> set requiredFields"
  "js ''country'' \<in> set requiredFields"
  by (simp_all add: requiredFields_def)

lemma settled_requests: "requests (fst (snd (handleSubmitSettled outcome st))) = []"
  by (simp add: handleSubmitSettled_def catchFinally_def split: sum.splits)

lemma timer_requests: "requests (fst (snd (handleSubmitTimer parsesAsURL link st))) = []"
  by (simp add: handleSubmitTimer_def assignLocationHref_def catchFinally_def)

lemma shop_400:
  "API_URL (shop 400) @ js ''/api/payment-link'' = js ''https://shop.example/api/payment-link''"
  "total (calculatePricing (shop 400) (getTotalPrice (shop 400))) = 490"
  "cart (shop 400) = [js ''silk saree'']"
  by (simp_all add: shop_def specCalculatePricing_def js_def)

lemma userName_Asha: "js ''Asha'' @ js '' '' @ js ''Rao '' = js ''Asha Rao ''"
  by (simp add: js_def)

section \<open>The payment-link request\<close>

text \<open>
  C6. A submission whose form validates issues exactly one request: a POST to the base
  URL followed by \<open>/api/payment-link\<close>, whose body holds the grand total of
  \<open>calculatePricing\<close> as \<open>totalAmount\<close>, the cart as \<open>cartItems\<close>, the first and last name
  joined by a space as \<open>userName\<close>, the email and phone fields as \<open>userEmail\<close> and
  \<open>userPhone\<close>, and the six address fields as \<open>shippingAddress\<close>. A submission whose form
  does not validate issues none, and the later stages of \<open>handleSubmit\<close> issue none.
\<close>

theorem payment_link_request:
  "(fst (validateForm (formData st)) \<and> formData st (js ''address2'') = Some line2 \<longrightarrow>
      (\<exists>email firstName lastName phone line1 town region code land.
         formData st (js ''email'') = Some email \<and>
         formData st (js ''firstName'') = Some firstName \<and>
         formData st (js ''lastName'') = Some lastName \<and>
         formData st (js ''phone'') = Some phone \<and>
         formData st (js ''address1'') = Some line1 \<and>
         formData st (js ''city'') = Some town \<and>
         formData st (js ''state'') = Some region \<and>
         formData st (js ''postalCode'') = Some code \<and>
         formData st (js ''country'') = Some land \<and>
         requests (fst (snd (handleSubmit env st))) =
           [(API_URL env @ js ''/api/payment-link'',
             \<lparr>totalAmount = total (calculatePricing env (getTotalPrice env)),
              cartItems = cart env,
              userName = firstName @ js '' '' @ lastName,
              userEmail = Some email,
              userPhone = Some phone,
              shippingAddress =
                \<lparr>address1 = Some line1, address2 = Some line2, city = Some town,
                 state = Some region, postalCode = Some code, country = Some land\<rparr>\<rparr>)])) \<and>
   (\<not> fst (validateForm (formData st)) \<longrightarrow> requests (fst (snd (handleSubmit env st))) = []) \<and>
   requests (fst (snd (handleSubmitSettled outcome st))) = [] \<and>
   requests (fst (snd (handleSubmitTimer parsesAsURL link st))) = []"
proof (intro conjI)
  show "fst (validateForm (formData st)) \<and> formData st (js ''address2'') = Some line2 \<longrightarrow>
      (\<exists>email firstName lastName phone line1 town region code land.
         formData st (js ''email'') = Some email \<and>
         formData st (js ''firstName'') = Some firstName \<and>
         formData st (js ''lastName'') = Some lastName \<and>
         formData st (js ''phone'') = Some phone \<and>
         formData st (js ''address1'') = Some line1 \<and>
         formData st (js ''city'') = Some town \<and>
         formData st (js ''state'') = Some region \<and>
         formData st (js ''postalCode'') = Some code \<and>
         formData st (js ''country'') = Some land \<and>
         requests (fst (snd (handleSubmit env st))) =
           [(API_URL env @ js ''/api/payment-link'',
             \<lparr>totalAmount = total (calculatePricing env (getTotalPrice env)),
              cartItems = cart env,
              userName = firstName @ js '' '' @ lastName,
              userEmail = Some email,
              userPhone = Some phone,
              shippingAddress =
                \<lparr>address1 = Some line1, address2 = Some line2, city = Some town,
                 state = Some region, postalCode = Some code, country = Some land\<rparr>\<rparr>)])"
  proof
    assume h: "fst (validateForm (formData st)) \<and> formData st (js ''address2'') = Some line2"
    then have ok: "fst (validateForm (formData st))" and a2: "formData st (js ''address2'') = Some line2"
      by simp_all
    note filled = required_filled [OF ok]
    from filled [OF required_members(1)] obtain email where 1: "formData st (js ''email'') = Some email" by blast
    from filled [OF required_members(2)] obtain firstName where 2: "formData st (js ''firstName'') = Some firstName" by blast
    from filled [OF required_members(3)] obtain lastName where 3: "formData st (js ''lastName'') = Some lastName" by blast
    from filled [OF required_members(4)] obtain phone where 4: "formData st (js ''phone'') = Some phone" by blast
    from filled [OF required_members(5)] obtain line1 where 5: "formData st (js ''address1'') = Some line1" by blast
    from filled [OF required_members(6)] obtain town where 6: "formData st (js ''city'') = Some town" by blast
    from filled [OF required_members(7)] obtain region where 7: "formData st (js ''state'') = Some region" by blast
    from filled [OF required_members(8)] obtain code where 8: "formData st (js ''postalCode'') = Some code" by blast
    from filled [OF required_members(9)] obtain land where 9: "formData st (js ''country'') = Some land" by blast
    have "requests (fst (snd (handleSubmit env st))) =
           [(API_URL env @ js ''/api/payment-link'',
             \<lparr>totalAmount = total (calculatePricing env (getTotalPrice env)),
              cartItems = cart env,
              userName = firstName @ js '' '' @ lastName,
              userEmail = Some email,
              userPhone = Some phone,
              shippingAddress =
                \<lparr>address1 = Some line1, address2 = Some line2, city = Some town,
                 state = Some region, postalCode = Some code, country = Some land\<rparr>\<rparr>)]"
      by (simp add: handleSubmit_valid [OF ok] requestBody_def template_def 1 2 3 4 5 6 7 8 9 a2)
    with 1 2 3 4 5 6 7 8 9 show "\<exists>email firstName lastName phone line1 town region code land.
         formData st (js ''email'') = Some email \<and>
         formData st (js ''firstName'') = Some firstName \<and>
         formData st (js ''lastName'') = Some lastName \<and>
         formData st (js ''phone'') = Some phone \<and>
         formData st (js ''address1'') = Some line1 \<and>
         formData st (js ''city'') = Some town \<and>
         formData st (js ''state'') = Some region \<and>
         formData st (js ''postalCode'') = Some code \<and>
         formData st (js ''country'') = Some land \<and>
         requests (fst (snd (handleSubmit env st))) =
           [(API_URL env @ js ''/api/payment-link'',
             \<lparr>totalAmount = total (calculatePricing env (getTotalPrice env)),
              cartItems = cart env,
              userName = firstName @ js '' '' @ lastName,
              userEmail = Some email,
              userPhone = Some phone,
              shippingAddress =
                \<lparr>address1 = Some line1, address2 = Some line2, city = Some town,
                 state = Some region, postalCode = Some code, country = Some land\<rparr>\<rparr>)]"
      by (intro exI conjI)
  qed
  show "\<not> fst (validateForm (formData st)) \<longrightarrow> requests (fst (snd (handleSubmit env st))) = []"
    by (simp add: handleSubmit_invalid requests_toasts)
  show "requests (fst (snd (handleSubmitSettled outcome st))) = []"
    by (rule settled_requests)
  show "requests (fst (snd (handleSubmitTimer parsesAsURL link st))) = []"
    by (rule timer_requests)
qed

theorem payment_link_request_witness:
  "fst (validateForm (formData filledCheckout)) \<and>
   formData filledCheckout (js ''address2'') = Some [] \<and>
   requests (fst (snd (handleSubmit (shop 400) filledCheckout))) =
     [(js ''https://shop.example/api/payment-link'',
       \<lparr>totalAmount = 490,
        cartItems = [js ''silk saree''],
        userName = js ''Asha Rao '',
        userEmail = Some (js '' a@b.in ''),
        userPhone = Some (js ''9876543210''),
        shippingAddress =
          \<lparr>address1 = Some (js ''12 Hill Road''), address2 = Some [],
           city = Some (js ''Pune''), state = Some (js ''MH''),
           postalCode = Some (js ''411001''), country = Some (js ''India'')\<rparr>\<rparr>)] \<and>
   \<not> fst (validateForm (formData initialCheckout)) \<and>
   requests (fst (snd (handleSubmit (shop 400) initialCheckout))) = []"
proof -
  have fd: "formData filledCheckout = filledForm" by (simp add: filledCheckout_def)
  have pre: "fst (validateForm (formData filledCheckout)) \<and>
             formData filledCheckout (js ''address2'') = Some []"
    using filledCheckout_valid by (simp add: fd filledForm_lookup)
  from payment_link_request [of filledCheckout "[]" "shop 400", THEN conjunct1, THEN mp, OF pre]
  obtain email firstName lastName phone line1 town region code land where
    eqs: "filledForm (js ''email'') = Some email"
         "filledForm (js ''firstName'') = Some firstName"
         "filledForm (js ''lastName'') = Some lastName"
         "filledForm (js ''phone'') = Some phone"
         "filledForm (js ''address1'') = Some line1"
         "filledForm (js ''city'') = Some town"
         "filledForm (js ''state'') = Some region"
         "filledForm (js ''postalCode'') = Some code"
         "filledForm (js ''country'') = Some land"
    and req: "requests (fst (snd (handleSubmit (shop 400) filledCheckout))) =
           [(API_URL (shop 400) @ js ''/api/payment-link'',
             \<lparr>totalAmount = total (calculatePricing (shop 400) (getTotalPrice (shop 400))),
              cartItems = cart (shop 400),
              userName = firstName @ js '' '' @ lastName,
              userEmail = Some email,
              userPhone = Some phone,
              shippingAddress =
                \<lparr>address1 = Some line1, address2 = Some [], city = Some town,
                 state = Some region, postalCode = Some code, country = Some land\<rparr>\<rparr>)]"
    unfolding fd by (elim exE conjE)
  from eqs have vals:
    "email = js '' a@b.in ''" "firstName = js ''Asha''" "lastName = js ''Rao ''"
    "phone = js ''9876543210''" "line1 = js ''12 Hill Road''" "town = js ''Pune''"
    "region = js ''MH''" "code = js ''411001''" "land = js ''India''"
    by (simp_all add: filledForm_lookup)
  have bad: "\<not> fst (validateForm (formData initialCheckout))"
    by (simp add: validateForm_def requiredFields_def initialCheckout_def initialFormData_def
        notTrimmed_def trim_def)
  from payment_link_request [of initialCheckout "[]" "shop 400", THEN conjunct2, THEN conjunct1] bad
  have none: "requests (fst (snd (handleSubmit (shop 400) initialCheckout))) = []"
    by (rule mp)
  from pre req bad none show ?thesis
    unfolding vals shop_400 userName_Asha by (intro conjI) simp_all
qed

section \<open>What the request carries\<close>

text \<open>
  C10. The request carries the form values as they were typed. After any run of field
  changes that leaves the form valid, the body of the request holds, for each field, the
  value of the last change made to it (\<open>map_of (rev keys)\<close> looks that change up), with
  nothing trimmed or normalised, and \<open>userName\<close> is the first name as typed, one space,
  and the last name as typed. A value with white space around it that passes validation
  is sent with that white space.
\<close>

theorem request_carries_raw_values:
  assumes "fst (validateForm (formData (typing keys st)))"
  shows "\<exists>body.
     requests (fst (snd (handleSubmit env (typing keys st)))) =
       [(API_URL env @ js ''/api/payment-link'', body)] \<and>
     (\<forall>val. map_of (rev keys) (js ''email'') = Some val \<longrightarrow> userEmail body = Some val) \<and>
     (\<forall>val. map_of (rev keys) (js ''phone'') = Some val \<longrightarrow> userPhone body = Some val) \<and>
     (\<forall>first last.
        map_of (rev keys) (js ''firstName'') = Some first \<and>
        map_of (rev keys) (js ''lastName'') = Some last \<longrightarrow>
        userName body = first @ [0x20] @ last) \<and>
     (\<forall>val. map_of (rev keys) (js ''address1'') = Some val \<longrightarrow>
        address1 (shippingAddress body) = Some val) \<and>
     (\<forall>val. map_of (rev keys) (js ''address2'') = Some val \<longrightarrow>
        address2 (shippingAddress body) = Some val) \<and>
     (\<forall>val. map_of (rev keys) (js ''city'') = Some val \<longrightarrow>
        city (shippingAddress body) = Some val) \<and>
     (\<forall>val. map_of (rev keys) (js ''state'') = Some val \<longrightarrow>
        state (shippingAddress body) = Some val) \<and>
     (\<forall>val. map_of (rev keys) (js ''postalCode'') = Some val \<longrightarrow>
        postalCode (shippingAddress body) = Some val) \<and>
     (\<forall>val. map_of (rev keys) (js ''country'') = Some val \<longrightarrow>
        country (shippingAddress body) = Some val)"
proof -
  let ?body = "requestBody env (formData (typing keys st))"
  have space: "js '' '' = [0x20]" by (simp add: js_def)
  have "requests (fst (snd (handleSubmit env (typing keys st)))) =
       [(API_URL env @ js ''/api/payment-link'', ?body)]"
    by (simp add: handleSubmit_valid [OF assms])
  moreover have "\<forall>val. map_of (rev keys) (js ''email'') = Some val \<longrightarrow> userEmail ?body = Some val"
    by (simp add: requestBody_def typing_formData)
  moreover have "\<forall>val. map_of (rev keys) (js ''phone'') = Some val \<longrightarrow> userPhone ?body = Some val"
    by (simp add: requestBody_def typing_formData)
  moreover have "\<forall>first last.
        map_of (rev keys) (js ''firstName'') = Some first \<and>
        map_of (rev keys) (js ''lastName'') = Some last \<longrightarrow>
        userName ?body = first @ [0x20] @ last"
    by (simp add: requestBody_def typing_formData template_def space)
  moreover have "\<forall>val. map_of (rev keys) (js ''address1'') = Some val \<longrightarrow>
        address1 (shippingAddress ?body) = Some val"
    by (simp add: requestBody_def typing_formData)
  moreover have "\<forall>val. map_of (rev keys) (js ''address2'') = Some val \<longrightarrow>
        address2 (shippingAddress ?body) = Some val"
    by (simp add: requestBody_def typing_formData)
  moreover have "\<forall>val. map_of (rev keys) (js ''city'') = Some val \<longrightarrow>
        city (shippingAddress ?body) = Some val"
    by (simp add: requestBody_def typing_formData)
  moreover have "\<forall>val. map_of (rev keys) (js ''state'') = Some val \<longrightarrow>
        state (shippingAddress ?body) = Some val"
    by (simp add: requestBody_def typing_formData)
  moreover have "\<forall>val. map_of (rev keys) (js ''postalCode'') = Some val \<longrightarrow>
        postalCode (shippingAddress ?body) = Some val"
    by (simp add: requestBody_def typing_formData)
  moreover have "\<forall>val. map_of (rev keys) (js ''country'') = Some val \<longrightarrow>
        country (shippingAddress ?body) = Some val"
    by (simp add: requestBody_def typing_formData)
  ultimately show ?thesis by (intro exI [of _ ?body] conjI)
qed

lemma retyped_formData:
  "formData (typing [(js ''email'', js ''x''), (js ''email'', js '' a@b.in ''),
                     (js ''lastName'', js ''Rao ''), (js ''firstName'', js ''Asha'')]
                    filledCheckout) = filledForm"
  by (rule ext) (simp add: handleInputChange_def filledCheckout_def filledForm_def js_def)

lemma retyped_last:
  "map_of (rev [(js ''email'', js ''x''), (js ''email'', js '' a@b.in ''),
                (js ''lastName'', js ''Rao ''), (js ''firstName'', js ''Asha'')]) (js ''email'')
     = Some (js '' a@b.in '')"
  "map_of (rev [(js ''email'', js ''x''), (js ''email'', js '' a@b.in ''),
                (js ''lastName'', js ''Rao ''), (js ''firstName'', js ''Asha'')]) (js ''firstName'')
     = Some (js ''Asha'')"
  "map_of (rev [(js ''email'', js ''x''), (js ''email'', js '' a@b.in ''),
                (js ''lastName'', js ''Rao ''), (js ''firstName'', js ''Asha'')]) (js ''lastName'')
     = Some (js ''Rao '')"
  by (simp_all add: js_def)

lemma padded_email: "trim (js '' a@b.in '') \<noteq> js '' a@b.in ''"
  by (simp add: trim_def js_def isWhiteSpace_def)

theorem request_carries_raw_values_witness:
  "fst (validateForm (formData
     (typing [(js ''email'', js ''x''), (js ''email'', js '' a@b.in ''),
              (js ''lastName'', js ''Rao ''), (js ''firstName'', js ''Asha'')] filledCheckout))) \<and>
   trim (js '' a@b.in '') \<noteq> js '' a@b.in '' \<and>
   (\<exists>body.
      requests (fst (snd (handleSubmit (shop 400)
        (typing [(js ''email'', js ''x''), (js ''email'', js '' a@b.in ''),
                 (js ''lastName'', js ''Rao ''), (js ''firstName'', js ''Asha'')] filledCheckout)))) =
        [(API_URL (shop 400) @ js ''/api/payment-link'', body)] \<and>
      userEmail body = Some (js '' a@b.in '') \<and>
      userName body = js ''Asha'' @ [0x20] @ js ''Rao '')"
proof -
  let ?keys = "[(js ''email'', js ''x''), (js ''email'', js '' a@b.in ''),
                (js ''lastName'', js ''Rao ''), (js ''firstName'', js ''Asha'')]"
  have valid: "fst (validateForm (formData (typing ?keys filledCheckout)))"
    unfolding retyped_formData by (rule filledForm_valid)
  from request_carries_raw_values [OF valid, of "shop 400"]
  obtain body where
    req: "requests (fst (snd (handleSubmit (shop 400) (typing ?keys filledCheckout)))) =
            [(API_URL (shop 400) @ js ''/api/payment-link'', body)]"
    and email: "\<forall>val. map_of (rev ?keys) (js ''email'') = Some val \<longrightarrow> userEmail body = Some val"
    and name: "\<forall>first last.
        map_of (rev ?keys) (js ''firstName'') = Some first \<and>
        map_of (rev ?keys) (js ''lastName'') = Some last \<longrightarrow>
        userName body = first @ [0x20] @ last"
    by (elim exE conjE)
  from email retyped_last(1) have e: "userEmail body = Some (js '' a@b.in '')"
    by (elim allE impE) assumption+
  from retyped_last(2) retyped_last(3)
  have "map_of (rev ?keys) (js ''firstName'') = Some (js ''Asha'') \<and>
        map_of (rev ?keys) (js ''lastName'') = Some (js ''Rao '')" ..
  with name have n: "userName body = js ''Asha'' @ [0x20] @ js ''Rao ''"
    by (elim allE impE) assumption+
  from req e n have "\<exists>body.
      requests (fst (snd (handleSubmit (shop 400) (typing ?keys filledCheckout)))) =
        [(API_URL (shop 400) @ js ''/api/payment-link'', body)] \<and>
      userEmail body = Some (js '' a@b.in '') \<and>
      userName body = js ''Asha'' @ [0x20] @ js ''Rao ''"
    by (intro exI conjI)
  with valid padded_email show ?thesis by (intro conjI)
qed

section \<open>The submission lifecycle\<close>

lemma valid_typing_disabled:
  assumes ok: "fst (validateForm (formData st))" and busy: "isProcessing st"
  shows "submitDisabled (typing keys st) = Inr True"
proof -
  have "\<forall>f\<in>set requiredFields. formData (typing keys st) f \<noteq> None"
  proof
    fix f assume "f \<in> set requiredFields"
    from required_filled [OF ok this] have "formData st f \<noteq> None" by auto
    then show "formData (typing keys st) f \<noteq> None" by (rule typing_defined)
  qed
  from isFormValid_defined [OF this] busy show ?thesis
    by (simp add: submitDisabled_def typing_isProcessing)
qed

text \<open>
  C4, as the code has it. A submission with a valid form, answered with a success status
  and a body whose \<open>paymentLink.short_url\<close> is a string that the browser parses as a URL:
  \<open>handleSubmit\<close> posts the request and turns \<open>isProcessing\<close> and \<open>animateTruck\<close> on; when
  the response arrives it checks nothing more and starts a timer of 1500 milliseconds;
  when the timer fires it assigns exactly the returned \<open>short_url\<close> to
  \<open>window.location.href\<close>. Whatever the user types into the form meanwhile (\<open>keys\<close>), the
  submit control stays disabled until that assignment.
\<close>

theorem submission_success:
  assumes valid: "fst (validateForm (formData st))"
    and status: "200 \<le> status \<and> status < 300"
    and paymentLink: "getProp body (js ''paymentLink'') = Inr paymentLink"
    and short_url: "getProp paymentLink (js ''short_url'') = Inr (JStr short_url)"
    and parses: "parsesAsURL (JStr short_url)"
  shows "\<exists>submitting.
     handleSubmit env st =
       (submitting,
        [PreventDefault,
         AxiosPost (API_URL env @ js ''/api/payment-link'') (requestBody env (formData st))],
        AwaitingPost) \<and>
     isProcessing submitting \<and> animateTruck submitting \<and>
     (\<forall>keys.
        submitDisabled (typing keys submitting) = Inr True \<and>
        handleSubmitSettled (HttpResponse status body) (typing keys submitting) =
          (typing keys submitting, [SetTimeout 1500], AwaitingTimer (JStr short_url)) \<and>
        handleSubmitTimer parsesAsURL (JStr short_url) (typing keys submitting) =
          ((typing keys submitting)\<lparr>isProcessing := False\<rparr>,
           [AssignLocationHref (JStr short_url)], Finished))"
proof -
  let ?s = "st\<lparr>animateTruck := True, isProcessing := True\<rparr>"
  have start: "handleSubmit env st =
       (?s,
        [PreventDefault,
         AxiosPost (API_URL env @ js ''/api/payment-link'') (requestBody env (formData st))],
        AwaitingPost)"
    by (rule handleSubmit_valid [OF valid])
  have flags: "isProcessing ?s" "animateTruck ?s" by simp_all
  have valid': "fst (validateForm (formData ?s))" using valid by simp
  have link: "extractLink body = Inr (JStr short_url)"
    by (simp add: extractLink_def paymentLink short_url)
  have rest: "\<forall>keys.
        submitDisabled (typing keys ?s) = Inr True \<and>
        handleSubmitSettled (HttpResponse status body) (typing keys ?s) =
          (typing keys ?s, [SetTimeout 1500], AwaitingTimer (JStr short_url)) \<and>
        handleSubmitTimer parsesAsURL (JStr short_url) (typing keys ?s) =
          ((typing keys ?s)\<lparr>isProcessing := False\<rparr>,
           [AssignLocationHref (JStr short_url)], Finished)"
  proof (intro allI conjI)
    fix keys
    show "submitDisabled (typing keys ?s) = Inr True"
      by (rule valid_typing_disabled [OF valid' flags(1)])
    show "handleSubmitSettled (HttpResponse status body) (typing keys ?s) =
          (typing keys ?s, [SetTimeout 1500], AwaitingTimer (JStr short_url))"
      using status by (simp add: handleSubmitSettled_def axiosPost_def link)
    show "handleSubmitTimer parsesAsURL (JStr short_url) (typing keys ?s) =
          ((typing keys ?s)\<lparr>isProcessing := False\<rparr>,
           [AssignLocationHref (JStr short_url)], Finished)"
      using parses by (simp add: handleSubmitTimer_def assignLocationHref_def)
  qed
  from start flags rest show ?thesis by (intro exI [of _ ?s] conjI)
qed

theorem submission_success_witness:
  "fst (validateForm (formData filledCheckout)) \<and>
   handleSubmit (shop 400) filledCheckout =
     (filledCheckout\<lparr>animateTruck := True, isProcessing := True\<rparr>,
      [PreventDefault,
       AxiosPost (API_URL (shop 400) @ js ''/api/payment-link'')
         (requestBody (shop 400) (formData filledCheckout))],
      AwaitingPost) \<and>
   submitDisabled (filledCheckout\<lparr>animateTruck := True, isProcessing := True\<rparr>) = Inr True \<and>
   (handleSubmitSettled paidResponse (filledCheckout\<lparr>animateTruck := True, isProcessing := True\<rparr>)
      :: checkout \<times> (int, jsstring) effect list \<times> continuation) =
     (filledCheckout\<lparr>animateTruck := True, isProcessing := True\<rparr>,
      [SetTimeout 1500], AwaitingTimer (JStr (js ''https://pay.example/abc''))) \<and>
   browser (JStr (js ''https://pay.example/abc'')) \<and>
   (handleSubmitTimer browser (JStr (js ''https://pay.example/abc''))
      (filledCheckout\<lparr>animateTruck := True, isProcessing := True\<rparr>)
      :: checkout \<times> (int, jsstring) effect list \<times> continuation) =
     (filledCheckout\<lparr>animateTruck := True, isProcessing := False\<rparr>,
      [AssignLocationHref (JStr (js ''https://pay.example/abc''))], Finished)"
proof -
  let ?s = "filledCheckout\<lparr>animateTruck := True, isProcessing := True\<rparr>"
  let ?url = "JStr (js ''https://pay.example/abc'')"
  have status: "(200::nat) \<le> 200 \<and> (200::nat) < 300" by simp
  have p: "getProp (JObj [(js ''paymentLink'', JObj [(js ''short_url'', ?url)])]) (js ''paymentLink'')
             = Inr (JObj [(js ''short_url'', ?url)])"
    by simp
  have u: "getProp (JObj [(js ''short_url'', ?url)]) (js ''short_url'') = Inr ?url"
    by simp
  have b: "browser ?url" by (simp add: browser_def js_def)
  from submission_success [where parsesAsURL = browser and env = "shop 400",
      OF filledCheckout_valid status p u b]
  obtain submitting where
    start: "handleSubmit (shop 400) filledCheckout =
       (submitting,
        [PreventDefault,
         AxiosPost (API_URL (shop 400) @ js ''/api/payment-link'')
           (requestBody (shop 400) (formData filledCheckout))],
        AwaitingPost)"
    and rest: "\<forall>keys.
        submitDisabled (typing keys submitting) = Inr True \<and>
        (handleSubmitSettled
           (HttpResponse 200 (JObj [(js ''paymentLink'', JObj [(js ''short_url'', ?url)])]))
           (typing keys submitting) :: checkout \<times> (int, jsstring) effect list \<times> continuation) =
          (typing keys submitting, [SetTimeout 1500], AwaitingTimer ?url) \<and>
        (handleSubmitTimer browser ?url (typing keys submitting)
           :: checkout \<times> (int, jsstring) effect list \<times> continuation) =
          ((typing keys submitting)\<lparr>isProcessing := False\<rparr>,
           [AssignLocationHref ?url], Finished)"
    by (elim exE conjE)
  from start have eq: "submitting = ?s"
    by (simp add: handleSubmit_valid [OF filledCheckout_valid])
  from rest [THEN spec, of "[]"] have here:
    "submitDisabled ?s = Inr True \<and>
     (handleSubmitSettled paidResponse ?s :: checkout \<times> (int, jsstring) effect list \<times> continuation) =
       (?s, [SetTimeout 1500], AwaitingTimer ?url) \<and>
     (handleSubmitTimer browser ?url ?s :: checkout \<times> (int, jsstring) effect list \<times> continuation) =
       (?s\<lparr>isProcessing := False\<rparr>, [AssignLocationHref ?url], Finished)"
    by (simp add: eq paidResponse_def)
  from filledCheckout_valid start here b show ?thesis by (simp add: eq)
qed

text \<open>
  The claim C4 as stated fails for a \<open>short_url\<close> that is a string but not a URL: the
  request succeeds with \<open>{"paymentLink": {"short_url": "https://"}}\<close>, the timer is started,
  and the assignment to \<open>window.location.href\<close> throws; the component then logs the error,
  shows the failure toast, turns \<open>animateTruck\<close> off and navigates nowhere.
\<close>

theorem unparsable_short_url_fails:
  "fst (validateForm (formData filledCheckout)) \<and>
   axiosPost (HttpResponse 200 (JObj [(js ''paymentLink'', JObj [(js ''short_url'', JStr (js ''https://''))])])) =
     Inr (JObj [(js ''paymentLink'', JObj [(js ''short_url'', JStr (js ''https://''))])]) \<and>
   (handleSubmitSettled
      (HttpResponse 200 (JObj [(js ''paymentLink'', JObj [(js ''short_url'', JStr (js ''https://''))])]))
      (filledCheckout\<lparr>animateTruck := True, isProcessing := True\<rparr>)
      :: checkout \<times> (int, jsstring) effect list \<times> continuation) =
     (filledCheckout\<lparr>animateTruck := True, isProcessing := True\<rparr>,
      [SetTimeout 1500], AwaitingTimer (JStr (js ''https://''))) \<and>
   \<not> browser (JStr (js ''https://'')) \<and>
   (handleSubmitTimer browser (JStr (js ''https://''))
      (filledCheckout\<lparr>animateTruck := True, isProcessing := True\<rparr>)
      :: checkout \<times> (int, jsstring) effect list \<times> continuation) =
     (filledCheckout\<lparr>animateTruck := False, isProcessing := False\<rparr>,
      [ConsoleError,
       ShowToast \<lparr>title = js ''Error'',
                  description = js ''Failed to generate payment link. Please try again.'',
                  variant = js ''destructive''\<rparr>],
      Finished)"
proof -
  have nb: "\<not> browser (JStr (js ''https://''))" by (simp add: browser_def)
  have settled: "(handleSubmitSettled
      (HttpResponse 200 (JObj [(js ''paymentLink'', JObj [(js ''short_url'', JStr (js ''https://''))])]))
      (filledCheckout\<lparr>animateTruck := True, isProcessing := True\<rparr>)
      :: checkout \<times> (int, jsstring) effect list \<times> continuation) =
     (filledCheckout\<lparr>animateTruck := True, isProcessing := True\<rparr>,
      [SetTimeout 1500], AwaitingTimer (JStr (js ''https://'')))"
    by (simp add: handleSubmitSettled_def axiosPost_def extractLink_def)
  have timer: "(handleSubmitTimer browser (JStr (js ''https://''))
      (filledCheckout\<lparr>animateTruck := True, isProcessing := True\<rparr>)
      :: checkout \<times> (int, jsstring) effect list \<times> continuation) =
     (filledCheckout\<lparr>animateTruck := False, isProcessing := False\<rparr>,
      [ConsoleError,
       ShowToast \<lparr>title = js ''Error'',
                  description = js ''Failed to generate payment link. Please try again.'',
                  variant = js ''destructive''\<rparr>],
      Finished)"
    using nb
    by (simp add: handleSubmitTimer_def assignLocationHref_def catchFinally_def failureToast_def)
  from filledCheckout_valid settled nb timer show ?thesis by (simp add: axiosPost_def)
qed

text \<open>
  C5, as the code has it. When the request rejects (a network error, or a status outside
  200..299, which \<open>axios\<close> turns into a rejection) or the link cannot be read from the
  response because the body or its \<open>paymentLink\<close> member is \<open>undefined\<close> or \<open>null\<close>, the
  component logs the error, shows the generic error toast, turns \<open>animateTruck\<close> and
  \<open>isProcessing\<close> off and does nothing else: no timer, no navigation. The submit control
  is enabled again if the form is still valid.
\<close>

theorem submission_failure:
  assumes "outcome = NetworkError \<or>
     (\<exists>status body. outcome = HttpResponse status body \<and>
        (status < 200 \<or> 300 \<le> status \<or> body = JUndefined \<or> body = JNull \<or>
         getProp body (js ''paymentLink'') = Inr JUndefined \<or>
         getProp body (js ''paymentLink'') = Inr JNull))"
  shows "handleSubmitSettled outcome st =
       (st\<lparr>animateTruck := False, isProcessing := False\<rparr>,
        [ConsoleError,
         ShowToast \<lparr>title = js ''Error'',
                    description = js ''Failed to generate payment link. Please try again.'',
                    variant = js ''destructive''\<rparr>],
        Finished) \<and>
     (isFormValid (formData st) = Inr True \<longrightarrow>
        submitDisabled (st\<lparr>animateTruck := False, isProcessing := False\<rparr>) = Inr False)"
proof
  from assms show "handleSubmitSettled outcome st =
       (st\<lparr>animateTruck := False, isProcessing := False\<rparr>,
        [ConsoleError,
         ShowToast \<lparr>title = js ''Error'',
                    description = js ''Failed to generate payment link. Please try again.'',
                    variant = js ''destructive''\<rparr>],
        Finished)"
    by (auto simp: handleSubmitSettled_def axiosPost_def extractLink_def catchFinally_def
        failureToast_def)
  show "isFormValid (formData st) = Inr True \<longrightarrow>
        submitDisabled (st\<lparr>animateTruck := False, isProcessing := False\<rparr>) = Inr False"
    by (simp add: submitDisabled_def)
qed

theorem submission_failure_witness:
  "(handleSubmitSettled NetworkError (filledCheckout\<lparr>animateTruck := True, isProcessing := True\<rparr>)
      :: checkout \<times> (int, jsstring) effect list \<times> continuation) =
     (filledCheckout\<lparr>animateTruck := False, isProcessing := False\<rparr>,
      [ConsoleError,
       ShowToast \<lparr>title = js ''Error'',
                  description = js ''Failed to generate payment link. Please try again.'',
                  variant = js ''destructive''\<rparr>],
      Finished) \<and>
   (handleSubmitSettled (HttpResponse 500 JNull)
      (filledCheckout\<lparr>animateTruck := True, isProcessing := True\<rparr>)
      :: checkout \<times> (int, jsstring) effect list \<times> continuation) =
     (filledCheckout\<lparr>animateTruck := False, isProcessing := False\<rparr>,
      [ConsoleError,
       ShowToast \<lparr>title = js ''Error'',
                  description = js ''Failed to generate payment link. Please try again.'',
                  variant = js ''destructive''\<rparr>],
      Finished) \<and>
   (handleSubmitSettled (HttpResponse 200 (JObj []))
      (filledCheckout\<lparr>animateTruck := True, isProcessing := True\<rparr>)
      :: checkout \<times> (int, jsstring) effect list \<times> continuation) =
     (filledCheckout\<lparr>animateTruck := False, isProcessing := False\<rparr>,
      [ConsoleError,
       ShowToast \<lparr>title = js ''Error'',
                  description = js ''Failed to generate payment link. Please try again.'',
                  variant = js ''destructive''\<rparr>],
      Finished) \<and>
   isFormValid (formData (filledCheckout\<lparr>animateTruck := True, isProcessing := True\<rparr>)) = Inr True \<and>
   submitDisabled (filledCheckout\<lparr>animateTruck := False, isProcessing := False\<rparr>) = Inr False"
proof -
  let ?s = "filledCheckout\<lparr>animateTruck := True, isProcessing := True\<rparr>"
  have a: "NetworkError = NetworkError \<or>
     (\<exists>status body. NetworkError = HttpResponse status body \<and>
        (status < 200 \<or> 300 \<le> status \<or> body = JUndefined \<or> body = JNull \<or>
         getProp body (js ''paymentLink'') = Inr JUndefined \<or>
         getProp body (js ''paymentLink'') = Inr JNull))"
    by simp
  have b: "HttpResponse 500 JNull = NetworkError \<or>
     (\<exists>status body. HttpResponse 500 JNull = HttpResponse status body \<and>
        (status < 200 \<or> 300 \<le> status \<or> body = JUndefined \<or> body = JNull \<or>
         getProp body (js ''paymentLink'') = Inr JUndefined \<or>
         getProp body (js ''paymentLink'') = Inr JNull))"
    by simp
  have c: "HttpResponse 200 (JObj []) = NetworkError \<or>
     (\<exists>status body. HttpResponse 200 (JObj []) = HttpResponse status body \<and>
        (status < 200 \<or> 300 \<le> status \<or> body = JUndefined \<or> body = JNull \<or>
         getProp body (js ''paymentLink'') = Inr JUndefined \<or>
         getProp body (js ''paymentLink'') = Inr JNull))"
    by simp
  have v: "isFormValid (formData ?s) = Inr True"
    using all_filled_valid [OF filledForm_required] by (simp add: filledCheckout_def)
  note 1 = submission_failure [OF a, of ?s, THEN conjunct1]
  note 2 = submission_failure [OF b, of ?s, THEN conjunct1]
  note 3 = submission_failure [OF c, of ?s, THEN conjunct1]
  have 4: "submitDisabled (?s\<lparr>animateTruck := False, isProcessing := False\<rparr>) = Inr False"
    by (rule submission_failure [OF a, of ?s, THEN conjunct2, THEN mp, OF v])
  have s: "?s\<lparr>animateTruck := False, isProcessing := False\<rparr> =
           filledCheckout\<lparr>animateTruck := False, isProcessing := False\<rparr>"
    by simp
  show ?thesis
    by (intro conjI) (rule 1 [unfolded s], rule 2 [unfolded s], rule 3 [unfolded s], rule v,
        rule 4 [unfolded s])
qed

text \<open>
  The claim C5 as stated fails for a malformed response that still has a \<open>paymentLink\<close>
  object: with status 200 and the body \<open>{"paymentLink": {}}\<close> nothing is thrown, no toast
  is shown, the timer is started and \<open>undefined\<close> is assigned to \<open>window.location.href\<close>,
  where it parses as a relative URL.
\<close>

theorem missing_short_url_navigates:
  "axiosPost (HttpResponse 200 (JObj [(js ''paymentLink'', JObj [])])) =
     Inr (JObj [(js ''paymentLink'', JObj [])]) \<and>
   (handleSubmitSettled (HttpResponse 200 (JObj [(js ''paymentLink'', JObj [])]))
      (filledCheckout\<lparr>animateTruck := True, isProcessing := True\<rparr>)
      :: checkout \<times> (int, jsstring) effect list \<times> continuation) =
     (filledCheckout\<lparr>animateTruck := True, isProcessing := True\<rparr>,
      [SetTimeout 1500], AwaitingTimer JUndefined) \<and>
   browser JUndefined \<and>
   (handleSubmitTimer browser JUndefined
      (filledCheckout\<lparr>animateTruck := True, isProcessing := True\<rparr>)
      :: checkout \<times> (int, jsstring) effect list \<times> continuation) =
     (filledCheckout\<lparr>animateTruck := True, isProcessing := False\<rparr>,
      [AssignLocationHref JUndefined], Finished)"
  by (simp add: handleSubmitSettled_def axiosPost_def extractLink_def handleSubmitTimer_def
      assignLocationHref_def browser_def)

end
